theory Spec2Isabelle
  imports Complex_Main "HOL-Library.AList" "HOL-Library.Sublist"
begin

section \<open>Values, documents and filters\<close>

text \<open>
  The handlers of \<^verbatim>\<open>main.py\<close> talk to a document store through dictionaries: a document
  is a dictionary from field names to values, a filter is a dictionary from field names
  to a required value or to a range. Dictionaries are association lists that keep the
  insertion order; assigning to a key that is present overwrites its value in place
  (\<open>AList.update\<close>).

  A calendar date is its year, month and day; dates compare chronologically.
\<close>

datatype date = YMD (year: nat) (month: nat) (day: nat)

definition date_le :: "date \<Rightarrow> date \<Rightarrow> bool" where
  "date_le a b =
     (year a < year b \<or>
      (year a = year b \<and> (month a < month b \<or> (month a = month b \<and> day a \<le> day b))))"

text \<open>
  A Python float is a finite number, an infinity or NaN. The value carries the text
  that \<^verbatim>\<open>str\<close> prints for it: the printing algorithm for floats is not part of the model,
  and no property below depends on it.
\<close>

datatype fpval = Finite real | PosInf | NegInf | NaN

datatype pyfloat = PyFloat (fval: fpval) (frepr: string)

fun fp_ge :: "fpval \<Rightarrow> real \<Rightarrow> bool" where
  "fp_ge (Finite r) b = (b \<le> r)"
| "fp_ge PosInf b = True"
| "fp_ge NegInf b = False"
| "fp_ge NaN b = False"

fun fp_le :: "fpval \<Rightarrow> real \<Rightarrow> bool" where
  "fp_le (Finite r) b = (r \<le> b)"
| "fp_le PosInf b = False"
| "fp_le NegInf b = True"
| "fp_le NaN b = False"

text \<open>
  The values a document holds: \<^verbatim>\<open>None\<close>, a string, a date, a generated identifier
  (written as its 24 lower-case hexadecimal digits) or a float.
\<close>

datatype pyval = Null | Str string | Date date | Oid string | Float pyfloat

type_synonym doc = "(string \<times> pyval) list"

text \<open>
  A filter condition on one field: equality with a value, or the range dictionary
  \<^verbatim>\<open>rng\<close> of \<^verbatim>\<open>list_attendance\<close>, whose key \<^verbatim>\<open>$gte\<close> and key \<^verbatim>\<open>$lte\<close> are each present or
  not. A range matches date values only; equality with \<^verbatim>\<open>None\<close> also matches a
  document without the field.
\<close>

datatype cond = Eq pyval | Rng (gte: "date option") (lte: "date option")

type_synonym filt = "(string \<times> cond) list"

fun holds :: "cond \<Rightarrow> pyval option \<Rightarrow> bool" where
  "holds (Eq v) None = (v = Null)"
| "holds (Eq v) (Some w) = (w = v)"
| "holds (Rng lo hi) (Some (Date d)) =
     ((case lo of None \<Rightarrow> True | Some a \<Rightarrow> date_le a d) \<and>
      (case hi of None \<Rightarrow> True | Some b \<Rightarrow> date_le d b))"
| "holds (Rng lo hi) _ = False"

definition matches :: "filt \<Rightarrow> doc \<Rightarrow> bool" where
  "matches f d = list_all (\<lambda>(k, c). holds c (map_of d k)) f"

section \<open>Errors\<close>

text \<open>
  \<^verbatim>\<open>HTTPException\<close> carries its status code and detail. A body that fails the schema
  is answered by the framework with status 422 before the handler runs. \<^verbatim>\<open>InvalidId\<close>
  is what \<^verbatim>\<open>ObjectId\<close> raises on a malformed identifier, \<^verbatim>\<open>StoreUnavailable\<close> what the
  adapter raises without a store; neither is caught, so both surface as status 500.
\<close>

datatype error =
    HTTPException nat string
  | RequestValidationError
  | InvalidId
  | StoreUnavailable

fun status_code :: "error \<Rightarrow> nat" where
  "status_code (HTTPException c detail) = c"
| "status_code RequestValidationError = 422"
| "status_code InvalidId = 500"
| "status_code StoreUnavailable = 500"

section \<open>Identifiers\<close>

definition is_hex :: "char \<Rightarrow> bool" where
  "is_hex c = (c \<in> set ''0123456789abcdefABCDEF'')"

definition hex_lower :: "char \<Rightarrow> char" where
  "hex_lower c =
     (if c = CHR ''A'' then CHR ''a'' else if c = CHR ''B'' then CHR ''b''
      else if c = CHR ''C'' then CHR ''c'' else if c = CHR ''D'' then CHR ''d''
      else if c = CHR ''E'' then CHR ''e'' else if c = CHR ''F'' then CHR ''f'' else c)"

text \<open>
  \<^verbatim>\<open>ObjectId(s)\<close> accepts a string of 24 hexadecimal digits and raises \<^verbatim>\<open>InvalidId\<close>
  otherwise. Two spellings that differ in letter case denote the same identifier.
\<close>

definition ObjectId :: "string \<Rightarrow> error + string" where
  "ObjectId s =
     (if length s = 24 \<and> list_all is_hex s then Inr (map hex_lower s) else Inl InvalidId)"

definition hex_digit :: "nat \<Rightarrow> char" where
  "hex_digit n = ''0123456789abcdef'' ! (n mod 16)"

text \<open>
  The store generates identifiers; here the n-th one is n written with 24 hexadecimal
  digits.
\<close>

fun hex_digits :: "nat \<Rightarrow> nat \<Rightarrow> string" where
  "hex_digits 0 n = []"
| "hex_digits (Suc k) n = hex_digits k (n div 16) @ [hex_digit n]"

definition new_oid :: "nat \<Rightarrow> string" where
  "new_oid n = hex_digits 24 n"

section \<open>The document store\<close>

text \<open>
  The store maps a collection name to its documents in store-native order, and counts
  the identifiers it has generated. A collection never written to is empty.
\<close>

record store =
  colls :: "string \<Rightarrow> doc list"
  next_id :: nat

definition find_docs :: "store \<Rightarrow> string \<Rightarrow> filt \<Rightarrow> doc list" where
  "find_docs s c f = filter (matches f) (colls s c)"

definition find_one :: "store \<Rightarrow> string \<Rightarrow> filt \<Rightarrow> doc option" where
  "find_one s c f = List.find (matches f) (colls s c)"

definition insert_one :: "store \<Rightarrow> string \<Rightarrow> doc \<Rightarrow> string \<times> store" where
  "insert_one s c d =
     (let oid = new_oid (next_id s) in
      (oid, s\<lparr>colls := (colls s)(c := colls s c @ [(''_id'', Oid oid) # d]),
              next_id := Suc (next_id s)\<rparr>))"

text \<open>\<^verbatim>\<open>delete_one\<close> removes the first matching document and reports how many it removed.\<close>

fun remove_first :: "filt \<Rightarrow> doc list \<Rightarrow> nat \<times> doc list" where
  "remove_first f [] = (0, [])"
| "remove_first f (d # ds) =
     (if matches f d then (1, ds)
      else (let (n, ds') = remove_first f ds in (n, d # ds')))"

definition delete_one :: "store \<Rightarrow> string \<Rightarrow> filt \<Rightarrow> nat \<times> store" where
  "delete_one s c f =
     (let (n, ds) = remove_first f (colls s c) in (n, s\<lparr>colls := (colls s)(c := ds)\<rparr>))"

definition delete_many :: "store \<Rightarrow> string \<Rightarrow> filt \<Rightarrow> nat \<times> store" where
  "delete_many s c f =
     (length (filter (matches f) (colls s c)),
      s\<lparr>colls := (colls s)(c := filter (\<lambda>d. \<not> matches f d) (colls s c))\<rparr>)"

text \<open>The operator \<^verbatim>\<open>$set\<close>: every given field is assigned in the document.\<close>

definition apply_set :: "doc \<Rightarrow> doc \<Rightarrow> doc" where
  "apply_set sets d = foldl (\<lambda>acc (k, v). AList.update k v acc) d sets"

fun update_first :: "filt \<Rightarrow> doc \<Rightarrow> doc list \<Rightarrow> nat \<times> doc list" where
  "update_first f sets [] = (0, [])"
| "update_first f sets (d # ds) =
     (if matches f d then (1, apply_set sets d # ds)
      else (let (n, ds') = update_first f sets ds in (n, d # ds')))"

definition eq_fields :: "filt \<Rightarrow> doc" where
  "eq_fields f = concat (map (\<lambda>(k, c). case c of Eq v \<Rightarrow> [(k, v)] | Rng lo hi \<Rightarrow> []) f)"

text \<open>
  \<^verbatim>\<open>update_one(filter, {"$set": ..., "$setOnInsert": ...}, upsert)\<close> assigns the
  \<^verbatim>\<open>$set\<close> fields in the first matching document and reports the number of matches
  (0 or 1). With \<^verbatim>\<open>upsert\<close> and no match it inserts a document made of a generated
  identifier, the filter's equality fields, the \<^verbatim>\<open>$set\<close> fields and the
  \<^verbatim>\<open>$setOnInsert\<close> fields.
\<close>

definition update_one :: "store \<Rightarrow> string \<Rightarrow> filt \<Rightarrow> doc \<Rightarrow> doc \<Rightarrow> bool \<Rightarrow> nat \<times> store" where
  "update_one s c f set_fields on_insert upsert =
     (let (n, ds) = update_first f set_fields (colls s c) in
      if n = 0 \<and> upsert then
        (0, s\<lparr>colls := (colls s)(c := colls s c @
                 [apply_set on_insert (apply_set set_fields
                    ((''_id'', Oid (new_oid (next_id s))) # eq_fields f))]),
               next_id := Suc (next_id s)\<rparr>)
      else (n, s\<lparr>colls := (colls s)(c := ds)\<rparr>))"

section \<open>Process state\<close>

text \<open>
  \<^verbatim>\<open>db\<close> is the store handle, \<^verbatim>\<open>None\<close> when no store is configured; its truth value is
  taken to be that it is not \<^verbatim>\<open>None\<close>, and the store is taken to hold calendar dates
  as they are and to compare them chronologically. \<^verbatim>\<open>SESSIONS\<close> is the in-memory set of issued tokens.
\<close>

record state =
  db :: "store option"
  SESSIONS :: "string set"

definition set_db :: "state \<Rightarrow> store \<Rightarrow> state" where
  "set_db st s = st\<lparr>db := Some s\<rparr>"

section \<open>Delete handlers\<close>

definition delete_student :: "state \<Rightarrow> string \<Rightarrow> (error + (string \<times> bool) list) \<times> state" where
  "delete_student st student_id =
     (case db st of
        None \<Rightarrow> (Inl (HTTPException 500 ''Database not available''), st)
      | Some s \<Rightarrow>
          (let (n1, s1) = delete_many s ''attendance'' [(''student_id'', Eq (Str student_id))];
               (n2, s2) = delete_many s1 ''grade'' [(''student_id'', Eq (Str student_id))]
           in case ObjectId student_id of
                Inl e \<Rightarrow> (Inl e, set_db st s2)
              | Inr oid \<Rightarrow>
                  (let (deleted_count, s3) = delete_one s2 ''student'' [(''_id'', Eq (Oid oid))]
                   in if deleted_count = 0
                      then (Inl (HTTPException 404 ''Student not found''), set_db st s3)
                      else (Inr [(''deleted'', True)], set_db st s3))))"

definition delete_attendance :: "state \<Rightarrow> string \<Rightarrow> (error + (string \<times> bool) list) \<times> state" where
  "delete_attendance st attendance_id =
     (case db st of
        None \<Rightarrow> (Inl (HTTPException 500 ''Database not available''), st)
      | Some s \<Rightarrow>
          (case ObjectId attendance_id of
             Inl e \<Rightarrow> (Inl e, st)
           | Inr oid \<Rightarrow>
               (let (deleted_count, s') = delete_one s ''attendance'' [(''_id'', Eq (Oid oid))]
                in if deleted_count = 0
                   then (Inl (HTTPException 404 ''Attendance not found''), set_db st s')
                   else (Inr [(''deleted'', True)], set_db st s'))))"

definition delete_agenda :: "state \<Rightarrow> string \<Rightarrow> (error + (string \<times> bool) list) \<times> state" where
  "delete_agenda st agenda_id =
     (case db st of
        None \<Rightarrow> (Inl (HTTPException 500 ''Database not available''), st)
      | Some s \<Rightarrow>
          (case ObjectId agenda_id of
             Inl e \<Rightarrow> (Inl e, st)
           | Inr oid \<Rightarrow>
               (let (deleted_count, s') = delete_one s ''agenda'' [(''_id'', Eq (Oid oid))]
                in if deleted_count = 0
                   then (Inl (HTTPException 404 ''Agenda not found''), set_db st s')
                   else (Inr [(''deleted'', True)], set_db st s'))))"

definition delete_grade :: "state \<Rightarrow> string \<Rightarrow> (error + (string \<times> bool) list) \<times> state" where
  "delete_grade st grade_id =
     (case db st of
        None \<Rightarrow> (Inl (HTTPException 500 ''Database not available''), st)
      | Some s \<Rightarrow>
          (case ObjectId grade_id of
             Inl e \<Rightarrow> (Inl e, st)
           | Inr oid \<Rightarrow>
               (let (deleted_count, s') = delete_one s ''grade'' [(''_id'', Eq (Oid oid))]
                in if deleted_count = 0
                   then (Inl (HTTPException 404 ''Grade not found''), set_db st s')
                   else (Inr [(''deleted'', True)], set_db st s'))))"

section \<open>Schemas\<close>

text \<open>
  The models of \<^verbatim>\<open>schemas.py\<close>. \<^verbatim>\<open>Field(...)\<close> makes a field required; nothing there
  bounds the length of a string. \<^verbatim>\<open>score\<close> is declared with \<^verbatim>\<open>ge=0, le=100\<close>.
\<close>

record Student =
  name :: string
  className :: string

record Attendance =
  student_id :: string
  date :: date
  status :: string

record Agenda =
  title :: string
  agenda_date :: date
  agenda_note :: "string option"

record Grade =
  grade_student_id :: string
  subject :: string
  score :: pyfloat
  grade_date :: "date option"

record LoginRequest =
  username :: string
  password :: string

record LoginResponse =
  token :: string

text \<open>
  A request body is the decoded JSON object, a dictionary of values. The framework
  validates it against the handler's schema before it calls the handler: a required
  field must be present with a value of the declared type, an optional one may be
  absent or \<^verbatim>\<open>None\<close>; fields the schema does not declare are ignored.
\<close>

definition req_str :: "doc \<Rightarrow> string \<Rightarrow> string option" where
  "req_str body k = (case map_of body k of Some (Str s) \<Rightarrow> Some s | _ \<Rightarrow> None)"

definition req_date :: "doc \<Rightarrow> string \<Rightarrow> date option" where
  "req_date body k = (case map_of body k of Some (Date d) \<Rightarrow> Some d | _ \<Rightarrow> None)"

definition req_float :: "doc \<Rightarrow> string \<Rightarrow> pyfloat option" where
  "req_float body k = (case map_of body k of Some (Float x) \<Rightarrow> Some x | _ \<Rightarrow> None)"

definition opt_str :: "doc \<Rightarrow> string \<Rightarrow> string option option" where
  "opt_str body k =
     (case map_of body k of
        None \<Rightarrow> Some None | Some Null \<Rightarrow> Some None | Some (Str s) \<Rightarrow> Some (Some s)
      | _ \<Rightarrow> None)"

definition opt_date :: "doc \<Rightarrow> string \<Rightarrow> date option option" where
  "opt_date body k =
     (case map_of body k of
        None \<Rightarrow> Some None | Some Null \<Rightarrow> Some None | Some (Date d) \<Rightarrow> Some (Some d)
      | _ \<Rightarrow> None)"

definition validate_Student :: "doc \<Rightarrow> error + Student" where
  "validate_Student body =
     (case req_str body ''name'' of
        None \<Rightarrow> Inl RequestValidationError
      | Some n \<Rightarrow>
          (case req_str body ''className'' of
             None \<Rightarrow> Inl RequestValidationError
           | Some c \<Rightarrow> Inr \<lparr>name = n, className = c\<rparr>))"

definition validate_Attendance :: "doc \<Rightarrow> error + Attendance" where
  "validate_Attendance body =
     (case req_str body ''student_id'' of
        None \<Rightarrow> Inl RequestValidationError
      | Some sid \<Rightarrow>
          (case req_date body ''date'' of
             None \<Rightarrow> Inl RequestValidationError
           | Some d \<Rightarrow>
               (case req_str body ''status'' of
                  None \<Rightarrow> Inl RequestValidationError
                | Some stat \<Rightarrow> Inr \<lparr>student_id = sid, date = d, status = stat\<rparr>)))"

definition validate_Agenda :: "doc \<Rightarrow> error + Agenda" where
  "validate_Agenda body =
     (case req_str body ''title'' of
        None \<Rightarrow> Inl RequestValidationError
      | Some t \<Rightarrow>
          (case req_date body ''date'' of
             None \<Rightarrow> Inl RequestValidationError
           | Some d \<Rightarrow>
               (case opt_str body ''note'' of
                  None \<Rightarrow> Inl RequestValidationError
                | Some n \<Rightarrow> Inr \<lparr>title = t, agenda_date = d, agenda_note = n\<rparr>)))"

definition validate_Grade :: "doc \<Rightarrow> error + Grade" where
  "validate_Grade body =
     (case req_str body ''student_id'' of
        None \<Rightarrow> Inl RequestValidationError
      | Some sid \<Rightarrow>
          (case req_str body ''subject'' of
             None \<Rightarrow> Inl RequestValidationError
           | Some sub \<Rightarrow>
               (case req_float body ''score'' of
                  None \<Rightarrow> Inl RequestValidationError
                | Some x \<Rightarrow>
                    if fp_ge (fval x) 0 \<and> fp_le (fval x) 100 then
                      (case opt_date body ''date'' of
                         None \<Rightarrow> Inl RequestValidationError
                       | Some d \<Rightarrow>
                           Inr \<lparr>grade_student_id = sid, subject = sub, score = x,
                                grade_date = d\<rparr>)
                    else Inl RequestValidationError)))"

text \<open>\<^verbatim>\<open>model_dump()\<close>: the model as a dictionary of its fields, in declaration order.\<close>

definition opt_val :: "('a \<Rightarrow> pyval) \<Rightarrow> 'a option \<Rightarrow> pyval" where
  "opt_val f x = (case x of None \<Rightarrow> Null | Some v \<Rightarrow> f v)"

definition dump_Student :: "Student \<Rightarrow> doc" where
  "dump_Student p = [(''name'', Str (name p)), (''className'', Str (className p))]"

definition dump_Attendance :: "Attendance \<Rightarrow> doc" where
  "dump_Attendance p =
     [(''student_id'', Str (student_id p)), (''date'', Date (date p)),
      (''status'', Str (status p))]"

definition dump_Agenda :: "Agenda \<Rightarrow> doc" where
  "dump_Agenda p =
     [(''title'', Str (title p)), (''date'', Date (agenda_date p)),
      (''note'', opt_val Str (agenda_note p))]"

definition dump_Grade :: "Grade \<Rightarrow> doc" where
  "dump_Grade p =
     [(''student_id'', Str (grade_student_id p)), (''subject'', Str (subject p)),
      (''score'', Float (score p)), (''date'', opt_val Date (grade_date p))]"

section \<open>Text forms\<close>

definition digit_char :: "nat \<Rightarrow> char" where
  "digit_char n = ''0123456789'' ! (n mod 10)"

fun decimal :: "nat \<Rightarrow> string" where
  "decimal n = (if n < 10 then [digit_char n] else decimal (n div 10) @ [digit_char n])"

definition zfill :: "nat \<Rightarrow> string \<Rightarrow> string" where
  "zfill w s = replicate (w - length s) (CHR ''0'') @ s"

text \<open>The canonical text of a date: \<^verbatim>\<open>YYYY-MM-DD\<close>.\<close>

definition isoformat :: "date \<Rightarrow> string" where
  "isoformat d =
     zfill 4 (decimal (year d)) @ ''-'' @ zfill 2 (decimal (month d)) @ ''-'' @
     zfill 2 (decimal (day d))"

text \<open>Python's \<^verbatim>\<open>str\<close> on a value.\<close>

fun py_str :: "pyval \<Rightarrow> string" where
  "py_str Null = ''None''"
| "py_str (Str s) = s"
| "py_str (Date d) = isoformat d"
| "py_str (Oid h) = h"
| "py_str (Float x) = frepr x"

text \<open>\<^verbatim>\<open>d.get(k)\<close>: the value of the field, \<^verbatim>\<open>None\<close> when the field is absent.\<close>

definition get :: "doc \<Rightarrow> string \<Rightarrow> pyval" where
  "get d k = (case map_of d k of None \<Rightarrow> Null | Some v \<Rightarrow> v)"

definition serialize :: "doc \<Rightarrow> doc" where
  "serialize d =
     (if d = [] then d
      else (case map_of d ''_id'' of
              None \<Rightarrow> d
            | Some v \<Rightarrow> AList.update ''_id'' (Str (py_str v)) d))"

section \<open>The store adapter\<close>

text \<open>
  Modelled from the spec: \<^verbatim>\<open>create_document\<close> and \<^verbatim>\<open>get_documents\<close> of the module
  \<^verbatim>\<open>database\<close>, which \<^verbatim>\<open>main.py\<close> imports. The first inserts the record's field values
  into the named collection and returns the generated identifier as text, and fails
  when there is no store; the second returns the documents of the named collection that
  match the filter, in store-native order, and the empty sequence when there is no
  store.
\<close>

definition create_document :: "state \<Rightarrow> string \<Rightarrow> doc \<Rightarrow> (error + string) \<times> state" where
  "create_document st c data =
     (case db st of
        None \<Rightarrow> (Inl StoreUnavailable, st)
      | Some s \<Rightarrow> (let (oid, s') = insert_one s c data in (Inr oid, set_db st s')))"

definition get_documents :: "state \<Rightarrow> string \<Rightarrow> filt \<Rightarrow> doc list" where
  "get_documents st c f = (case db st of None \<Rightarrow> [] | Some s \<Rightarrow> find_docs s c f)"

section \<open>Students, agendas and grades\<close>

definition create_student :: "state \<Rightarrow> Student \<Rightarrow> (error + (string \<times> string) list) \<times> state" where
  "create_student st payload =
     (case create_document st ''student'' (dump_Student payload) of
        (Inl e, st') \<Rightarrow> (Inl e, st')
      | (Inr i, st') \<Rightarrow> (Inr [(''_id'', i)], st'))"

definition list_students :: "state \<Rightarrow> doc list" where
  "list_students st = map serialize (get_documents st ''student'' [])"

definition update_student ::
  "state \<Rightarrow> string \<Rightarrow> Student \<Rightarrow> (error + (string \<times> bool) list) \<times> state" where
  "update_student st sid payload =
     (case db st of
        None \<Rightarrow> (Inl (HTTPException 500 ''Database not available''), st)
      | Some s \<Rightarrow>
          (case ObjectId sid of
             Inl e \<Rightarrow> (Inl e, st)
           | Inr oid \<Rightarrow>
               (let (matched_count, s') =
                      update_one s ''student'' [(''_id'', Eq (Oid oid))] (dump_Student payload)
                        [] False
                in if matched_count = 0
                   then (Inl (HTTPException 404 ''Student not found''), set_db st s')
                   else (Inr [(''updated'', True)], set_db st s'))))"

definition create_agenda :: "state \<Rightarrow> Agenda \<Rightarrow> (error + (string \<times> string) list) \<times> state" where
  "create_agenda st payload =
     (case create_document st ''agenda'' (dump_Agenda payload) of
        (Inl e, st') \<Rightarrow> (Inl e, st')
      | (Inr i, st') \<Rightarrow> (Inr [(''_id'', i)], st'))"

definition list_agendas :: "state \<Rightarrow> doc list" where
  "list_agendas st = map serialize (get_documents st ''agenda'' [])"

definition update_agenda ::
  "state \<Rightarrow> string \<Rightarrow> Agenda \<Rightarrow> (error + (string \<times> bool) list) \<times> state" where
  "update_agenda st aid payload =
     (case db st of
        None \<Rightarrow> (Inl (HTTPException 500 ''Database not available''), st)
      | Some s \<Rightarrow>
          (case ObjectId aid of
             Inl e \<Rightarrow> (Inl e, st)
           | Inr oid \<Rightarrow>
               (let (matched_count, s') =
                      update_one s ''agenda'' [(''_id'', Eq (Oid oid))] (dump_Agenda payload)
                        [] False
                in if matched_count = 0
                   then (Inl (HTTPException 404 ''Agenda not found''), set_db st s')
                   else (Inr [(''updated'', True)], set_db st s'))))"

definition add_grade :: "state \<Rightarrow> Grade \<Rightarrow> (error + (string \<times> string) list) \<times> state" where
  "add_grade st payload =
     (case create_document st ''grade'' (dump_Grade payload) of
        (Inl e, st') \<Rightarrow> (Inl e, st')
      | (Inr i, st') \<Rightarrow> (Inr [(''_id'', i)], st'))"


section \<open>Attendance\<close>

definition mark_attendance :: "state \<Rightarrow> Attendance \<Rightarrow> (error + doc option) \<times> state" where
  "mark_attendance st payload =
     (case db st of
        None \<Rightarrow> (Inl (HTTPException 500 ''Database not available''), st)
      | Some s \<Rightarrow>
          (let data = dump_Attendance payload;
               key = [(''student_id'', Eq (Str (student_id payload))),
                      (''date'', Eq (Date (date payload)))];
               (n, s') = update_one s ''attendance'' key data [(''created_at'', Null)] True;
               found = find_one s' ''attendance'' key
           in (Inr (map_option serialize found), set_db st s')))"


subsection \<open>CSV export\<close>

text \<open>
  The CSV writer turns \<^verbatim>\<open>None\<close> into the empty text and any other value into its
  \<^verbatim>\<open>str\<close>. A text that holds a comma, a double quote, a carriage return or a line feed
  is enclosed in double quotes, with every double quote in it doubled. The cells of a
  row are joined by commas and the row ends with carriage return and line feed.
\<close>

definition cell_text :: "pyval \<Rightarrow> string" where
  "cell_text v = (case v of Null \<Rightarrow> [] | _ \<Rightarrow> py_str v)"






definition csv_row :: "doc \<Rightarrow> pyval list" where
  "csv_row r =
     [Str (py_str (get r ''_id'')), get r ''student_id'', Str (py_str (get r ''date'')),
      get r ''status'']"


section \<open>Login\<close>

definition login :: "state \<Rightarrow> LoginRequest \<Rightarrow> (error + LoginResponse) \<times> state" where
  "login st req =
     (if username req = [] \<or> password req = []
      then (Inl (HTTPException 400 ''Username and password required''), st)
      else (let tok = ''token-'' @ username req
            in (Inr \<lparr>token = tok\<rparr>, st\<lparr>SESSIONS := insert tok (SESSIONS st)\<rparr>)))"

section \<open>Requests with a body\<close>

text \<open>
  A \<^verbatim>\<open>POST\<close> request carries a body. When the body fails the handler's schema the
  framework answers with the validation error and the handler does not run.
\<close>

definition post_students :: "state \<Rightarrow> doc \<Rightarrow> (error + (string \<times> string) list) \<times> state" where
  "post_students st body =
     (case validate_Student body of
        Inl e \<Rightarrow> (Inl e, st)
      | Inr payload \<Rightarrow> create_student st payload)"

definition post_agendas :: "state \<Rightarrow> doc \<Rightarrow> (error + (string \<times> string) list) \<times> state" where
  "post_agendas st body =
     (case validate_Agenda body of
        Inl e \<Rightarrow> (Inl e, st)
      | Inr payload \<Rightarrow> create_agenda st payload)"

definition post_grades :: "state \<Rightarrow> doc \<Rightarrow> (error + (string \<times> string) list) \<times> state" where
  "post_grades st body =
     (case validate_Grade body of
        Inl e \<Rightarrow> (Inl e, st)
      | Inr payload \<Rightarrow> add_grade st payload)"

definition post_attendance :: "state \<Rightarrow> doc \<Rightarrow> (error + doc option) \<times> state" where
  "post_attendance st body =
     (case validate_Attendance body of
        Inl e \<Rightarrow> (Inl e, st)
      | Inr payload \<Rightarrow> mark_attendance st payload)"

text \<open>A \<^verbatim>\<open>PUT\<close> request carries a body as well.\<close>

definition put_students ::
  "state \<Rightarrow> string \<Rightarrow> doc \<Rightarrow> (error + (string \<times> bool) list) \<times> state" where
  "put_students st sid body =
     (case validate_Student body of
        Inl e \<Rightarrow> (Inl e, st)
      | Inr payload \<Rightarrow> update_student st sid payload)"

definition put_agendas ::
  "state \<Rightarrow> string \<Rightarrow> doc \<Rightarrow> (error + (string \<times> bool) list) \<times> state" where
  "put_agendas st aid body =
     (case validate_Agenda body of
        Inl e \<Rightarrow> (Inl e, st)
      | Inr payload \<Rightarrow> update_agenda st aid payload)"

section \<open>Reachable states\<close>

text \<open>
  The requests that can change the state, and the state each leaves behind. A process
  starts without a store or with a store that holds no record.
\<close>

datatype request =
    PostStudents doc
  | PutStudents string doc
  | DeleteStudents string
  | PostAttendance doc
  | DeleteAttendance string
  | PostAgendas doc
  | PutAgendas string doc
  | DeleteAgendas string
  | PostGrades doc
  | DeleteGrades string
  | PostLogin LoginRequest

fun handle :: "state \<Rightarrow> request \<Rightarrow> state" where
  "handle st (PostStudents body) = snd (post_students st body)"
| "handle st (PutStudents i body) = snd (put_students st i body)"
| "handle st (DeleteStudents i) = snd (delete_student st i)"
| "handle st (PostAttendance body) = snd (post_attendance st body)"
| "handle st (DeleteAttendance i) = snd (delete_attendance st i)"
| "handle st (PostAgendas body) = snd (post_agendas st body)"
| "handle st (PutAgendas i body) = snd (put_agendas st i body)"
| "handle st (DeleteAgendas i) = snd (delete_agenda st i)"
| "handle st (PostGrades body) = snd (post_grades st body)"
| "handle st (DeleteGrades i) = snd (delete_grade st i)"
| "handle st (PostLogin req) = snd (login st req)"

definition fresh :: "state \<Rightarrow> bool" where
  "fresh st = (case db st of None \<Rightarrow> True | Some s \<Rightarrow> colls s = (\<lambda>c. []))"

inductive reachable :: "state \<Rightarrow> bool" where
  start: "fresh st \<Longrightarrow> reachable st"
| step: "reachable st \<Longrightarrow> reachable (handle st r)"

section \<open>Sample states and specification predicates\<close>

text \<open>
  Concrete states and requests on which the properties below are evaluated, and the
  predicates in which the properties are stated.
\<close>

definition empty_state :: state where
  "empty_state = \<lparr>db = Some \<lparr>colls = (\<lambda>c. []), next_id = 0\<rparr>, SESSIONS = {}\<rparr>"

definition sample_store :: store where
  "sample_store =
     \<lparr>colls = (\<lambda>c. [])
        (''student'' :=
           [[(''_id'', Oid ''000000000000000000000000''), (''name'', Str ''Budi''),
             (''className'', Str ''5A'')]],
         ''attendance'' :=
           [[(''_id'', Oid ''000000000000000000000001''),
             (''student_id'', Str ''000000000000000000000000''),
             (''date'', Date (YMD 2024 1 15)), (''status'', Str ''Hadir''),
             (''created_at'', Null)],
            [(''_id'', Oid ''000000000000000000000002''),
             (''student_id'', Str ''000000000000000000000000''),
             (''date'', Date (YMD 2024 2 1)), (''status'', Str ''Izin''),
             (''created_at'', Null)]],
         ''agenda'' :=
           [[(''_id'', Oid ''000000000000000000000003''), (''title'', Str ''Rapat''),
             (''date'', Date (YMD 2024 1 20)), (''note'', Null)]],
         ''grade'' :=
           [[(''_id'', Oid ''000000000000000000000004''),
             (''student_id'', Str ''000000000000000000000000''),
             (''subject'', Str ''Matematika''),
             (''score'', Float (PyFloat (Finite 85) ''85.0'')), (''date'', Null)]]),
      next_id = 5\<rparr>"

definition sample_state :: state where
  "sample_state = \<lparr>db = Some sample_store, SESSIONS = {}\<rparr>"


definition body_empty_name :: doc where
  "body_empty_name = [(''name'', Str []), (''className'', Str ''5A'')]"

definition body_no_name :: doc where
  "body_no_name = [(''className'', Str ''5A'')]"

definition body_student :: doc where
  "body_student = [(''name'', Str ''Budi''), (''className'', Str ''5A'')]"

definition body_grade :: "fpval \<Rightarrow> doc" where
  "body_grade v =
     [(''student_id'', Str ''000000000000000000000000''), (''subject'', Str ''IPA''),
      (''score'', Float (PyFloat v ''?''))]"

text \<open>
  From the spec's words: a record is listed when it satisfies the exact \<^verbatim>\<open>student_id\<close>
  filter, if one is given, and its date lies between the bounds that are given, bounds
  included.
\<close>

definition selected :: "string option \<Rightarrow> date option \<Rightarrow> date option \<Rightarrow> doc \<Rightarrow> bool" where
  "selected sid start_date end_date d =
     ((case sid of
         None \<Rightarrow> True
       | Some x \<Rightarrow> x = [] \<or> map_of d ''student_id'' = Some (Str x)) \<and>
      (case map_of d ''date'' of
         Some (Date dt) \<Rightarrow>
           (case start_date of None \<Rightarrow> True | Some a \<Rightarrow> date_le a dt) \<and>
           (case end_date of None \<Rightarrow> True | Some b \<Rightarrow> date_le dt b)
       | _ \<Rightarrow> False))"

text \<open>The filter by which \<^verbatim>\<open>mark_attendance\<close> finds the record of a student and a day.\<close>

definition key_filter :: "string \<Rightarrow> date \<Rightarrow> filt" where
  "key_filter sid dt = [(''student_id'', Eq (Str sid)), (''date'', Eq (Date dt))]"

text \<open>The record that \<^verbatim>\<open>mark_attendance\<close> inserts when the key has none.\<close>

definition inserted_doc :: "nat \<Rightarrow> Attendance \<Rightarrow> doc" where
  "inserted_doc n p =
     [(''_id'', Oid (new_oid n)), (''student_id'', Str (student_id p)),
      (''date'', Date (date p)), (''status'', Str (status p)), (''created_at'', Null)]"






text \<open>
  No two attendance records of the store have the same student and day; a state has
  unique keys when it has no store or its store has.
\<close>

definition keys_unique :: "store \<Rightarrow> bool" where
  "keys_unique s =
     (\<forall>sid dt. length (find_docs s ''attendance'' (key_filter sid dt)) \<le> 1)"

definition keys_ok :: "state \<Rightarrow> bool" where
  "keys_ok st = (case db st of None \<Rightarrow> True | Some s \<Rightarrow> keys_unique s)"



section \<open>Store lemmas\<close>







section \<open>Deleting an identifier that matches no record\<close>

text \<open>
  Without a store a delete answers 500, and a malformed identifier makes \<^verbatim>\<open>ObjectId\<close>
  raise; \<^verbatim>\<open>delete_student\<close> has run its cascade by then.
\<close>

lemma delete_without_store:
  assumes "db st = None"
  shows "delete_agenda st i = (Inl (HTTPException 500 ''Database not available''), st)"
    and "delete_grade st i = (Inl (HTTPException 500 ''Database not available''), st)"
    and "delete_attendance st i = (Inl (HTTPException 500 ''Database not available''), st)"
    and "delete_student st i = (Inl (HTTPException 500 ''Database not available''), st)"
  using assms
  by (simp_all add: delete_agenda_def delete_grade_def delete_attendance_def delete_student_def)

lemma delete_malformed_id:
  assumes "db st = Some s" and "ObjectId i = Inl e"
  shows "delete_agenda st i = (Inl e, st)"
    and "delete_grade st i = (Inl e, st)"
    and "delete_attendance st i = (Inl e, st)"
    and "fst (delete_student st i) = Inl e"
  using assms
  by (simp_all add: delete_agenda_def delete_grade_def delete_attendance_def delete_student_def
      delete_many_def)




lemma create_document_store:
  "db st = Some s \<Longrightarrow>
     create_document st c data =
       (Inr (new_oid (next_id s)),
        set_db st (s\<lparr>colls := (colls s)(c := colls s c @ [(''_id'', Oid (new_oid (next_id s))) # data]),
                     next_id := Suc (next_id s)\<rparr>))"
  by (simp add: create_document_def insert_one_def Let_def)

section \<open>Creating a student\<close>

text \<open>
  C2, as stated, fails: the schema puts no lower bound on the length of \<^verbatim>\<open>name\<close>, so a
  body whose \<^verbatim>\<open>name\<close> is the empty string passes validation and the student is
  written to the store.
\<close>

theorem student_empty_name_counterexample:
  "fst (post_students empty_state body_empty_name) = Inr [(''_id'', ''000000000000000000000000'')] \<and>
   colls (the (db (snd (post_students empty_state body_empty_name)))) ''student'' =
     [[(''_id'', Oid ''000000000000000000000000''), (''name'', Str []), (''className'', Str ''5A'')]]"
  by code_simp

text \<open>
  C2, amended: the body of a Student create request is validated against the shape in
  which \<^verbatim>\<open>name\<close> and \<^verbatim>\<open>className\<close> are required texts. A body in which either is
  missing or is not a text is rejected with the validation error (status 422) and the
  state is unchanged; a body in which both are texts, the empty string included,
  reaches \<^verbatim>\<open>create_student\<close>, which with a store inserts the record and answers with
  the generated identifier.
\<close>

theorem post_students_validation:
  "((\<forall>n. map_of body ''name'' \<noteq> Some (Str n)) \<or> (\<forall>c. map_of body ''className'' \<noteq> Some (Str c)) \<longrightarrow>
      post_students st body = (Inl RequestValidationError, st)) \<and>
   (map_of body ''name'' = Some (Str n) \<and> map_of body ''className'' = Some (Str c) \<longrightarrow>
      post_students st body = create_student st \<lparr>name = n, className = c\<rparr>) \<and>
   (db st = Some s \<longrightarrow>
      create_student st \<lparr>name = n, className = c\<rparr> =
        (Inr [(''_id'', new_oid (next_id s))],
         set_db st (s\<lparr>colls := (colls s)(''student'' := colls s ''student'' @
                        [[(''_id'', Oid (new_oid (next_id s))), (''name'', Str n),
                          (''className'', Str c)]]),
                      next_id := Suc (next_id s)\<rparr>)))"
proof (intro conjI impI)
  assume "(\<forall>n. map_of body ''name'' \<noteq> Some (Str n)) \<or> (\<forall>c. map_of body ''className'' \<noteq> Some (Str c))"
  then have "req_str body ''name'' = None \<or> req_str body ''className'' = None"
    by (auto simp: req_str_def split: option.splits pyval.splits)
  then show "post_students st body = (Inl RequestValidationError, st)"
    by (auto simp: post_students_def validate_Student_def split: option.splits)
next
  assume "map_of body ''name'' = Some (Str n) \<and> map_of body ''className'' = Some (Str c)"
  then show "post_students st body = create_student st \<lparr>name = n, className = c\<rparr>"
    by (simp add: post_students_def validate_Student_def req_str_def)
next
  assume "db st = Some s"
  then show "create_student st \<lparr>name = n, className = c\<rparr> =
        (Inr [(''_id'', new_oid (next_id s))],
         set_db st (s\<lparr>colls := (colls s)(''student'' := colls s ''student'' @
                        [[(''_id'', Oid (new_oid (next_id s))), (''name'', Str n),
                          (''className'', Str c)]]),
                      next_id := Suc (next_id s)\<rparr>))"
    by (simp add: create_student_def create_document_store dump_Student_def)
qed

theorem post_students_validation_witness:
  "post_students sample_state body_no_name = (Inl RequestValidationError, sample_state) \<and>
   post_students sample_state body_student = create_student sample_state \<lparr>name = ''Budi'', className = ''5A''\<rparr> \<and>
   fst (create_student sample_state \<lparr>name = ''Budi'', className = ''5A''\<rparr>) = Inr [(''_id'', ''000000000000000000000005'')]"
proof -
  have a: "db sample_state = Some sample_store"
    by (simp add: sample_state_def)
  have n: "next_id sample_store = 5"
    by (simp add: sample_store_def)
  have o: "new_oid 5 = ''000000000000000000000005''"
    by code_simp
  have 1: "post_students sample_state body_no_name = (Inl RequestValidationError, sample_state)"
    using post_students_validation [where body = body_no_name and st = sample_state]
    by (simp add: body_no_name_def)
  have 2: "post_students sample_state body_student = create_student sample_state \<lparr>name = ''Budi'', className = ''5A''\<rparr>"
    using post_students_validation [where body = body_student and n = "''Budi''" and c = "''5A''"
        and st = sample_state]
    by (simp add: body_student_def)
  have 3: "fst (create_student sample_state \<lparr>name = ''Budi'', className = ''5A''\<rparr>) = Inr [(''_id'', ''000000000000000000000005'')]"
    using post_students_validation [where body = body_student and n = "''Budi''" and c = "''5A''"
        and st = sample_state and s = sample_store] a
    by (simp add: n o)
  from 1 2 3 show ?thesis by simp
qed

section \<open>Login\<close>

text \<open>
  C8: a login whose username or password is the empty string fails with status 400
  and changes nothing; any other login answers with the token \<^verbatim>\<open>token-\<close> followed by
  the username, which holds the username and is recorded in \<^verbatim>\<open>SESSIONS\<close>; the token
  depends on the username alone, whatever the state and the password.
\<close>

theorem login_token:
  "(username req = [] \<or> password req = [] \<longrightarrow>
      login st req = (Inl (HTTPException 400 ''Username and password required''), st)) \<and>
   (username req \<noteq> [] \<and> password req \<noteq> [] \<longrightarrow>
      fst (login st req) = Inr \<lparr>token = ''token-'' @ username req\<rparr> \<and>
      suffix (username req) (''token-'' @ username req) \<and>
      snd (login st req) = st\<lparr>SESSIONS := insert (''token-'' @ username req) (SESSIONS st)\<rparr>) \<and>
   (username req \<noteq> [] \<and> password req \<noteq> [] \<and> username req' = username req \<and> password req' \<noteq> [] \<longrightarrow>
      fst (login st' req') = fst (login st req))"
  by (auto simp: login_def Let_def suffix_def)

theorem login_token_witness:
  "login empty_state \<lparr>username = [], password = ''pw''\<rparr> =
     (Inl (HTTPException 400 ''Username and password required''), empty_state) \<and>
   login empty_state \<lparr>username = ''admin'', password = []\<rparr> =
     (Inl (HTTPException 400 ''Username and password required''), empty_state) \<and>
   fst (login empty_state \<lparr>username = ''admin'', password = ''pw''\<rparr>) = Inr \<lparr>token = ''token-admin''\<rparr> \<and>
   fst (login sample_state \<lparr>username = ''admin'', password = ''other''\<rparr>) =
     fst (login empty_state \<lparr>username = ''admin'', password = ''pw''\<rparr>)"
  using login_token [where req = "\<lparr>username = [], password = ''pw''\<rparr>" and st = empty_state]
    login_token [where req = "\<lparr>username = ''admin'', password = []\<rparr>" and st = empty_state]
    login_token [where req = "\<lparr>username = ''admin'', password = ''pw''\<rparr>" and st = empty_state
       and req' = "\<lparr>username = ''admin'', password = ''other''\<rparr>" and st' = sample_state]
  by simp

section \<open>An empty student identifier in a list request\<close>




section \<open>The score of a grade\<close>

lemma validate_Grade_out_of_range:
  assumes "map_of body ''score'' = Some (Float x)"
    and "\<not> (fp_ge (fval x) 0 \<and> fp_le (fval x) 100)"
  shows "validate_Grade body = Inl RequestValidationError"
proof -
  have "req_float body ''score'' = Some x"
    using assms(1) by (simp add: req_float_def)
  then show ?thesis
    using assms(2) by (auto simp: validate_Grade_def split: option.splits)
qed

text \<open>
  C6: a Grade body whose \<^verbatim>\<open>score\<close> is not within 0 and 100 (a finite score below 0 or
  above 100, an infinity or NaN) is rejected with the validation error and the state is
  unchanged; a body whose score is 0 or 100, the other fields being well formed, reaches
  \<^verbatim>\<open>add_grade\<close>, which with a store inserts the record and answers with the generated
  identifier.
\<close>

theorem post_grades_score_range:
  "(map_of body ''score'' = Some (Float x) \<and> \<not> (fp_ge (fval x) 0 \<and> fp_le (fval x) 100) \<longrightarrow>
      post_grades st body = (Inl RequestValidationError, st)) \<and>
   (map_of body ''score'' = Some (Float x) \<and> fval x = Finite r \<and> (r < 0 \<or> 100 < r) \<longrightarrow>
      post_grades st body = (Inl RequestValidationError, st)) \<and>
   (map_of body ''student_id'' = Some (Str sid) \<and> map_of body ''subject'' = Some (Str sub) \<and>
    map_of body ''score'' = Some (Float x) \<and> (fval x = Finite 0 \<or> fval x = Finite 100) \<and>
    opt_date body ''date'' = Some d \<longrightarrow>
      post_grades st body =
        add_grade st \<lparr>grade_student_id = sid, subject = sub, score = x, grade_date = d\<rparr>) \<and>
   (db st = Some s \<longrightarrow>
      add_grade st g =
        (Inr [(''_id'', new_oid (next_id s))],
         set_db st (s\<lparr>colls := (colls s)(''grade'' := colls s ''grade'' @
                        [(''_id'', Oid (new_oid (next_id s))) # dump_Grade g]),
                      next_id := Suc (next_id s)\<rparr>)))"
proof (intro conjI impI)
  assume "map_of body ''score'' = Some (Float x) \<and> \<not> (fp_ge (fval x) 0 \<and> fp_le (fval x) 100)"
  then show "post_grades st body = (Inl RequestValidationError, st)"
    by (simp add: post_grades_def validate_Grade_out_of_range)
next
  assume a: "map_of body ''score'' = Some (Float x) \<and> fval x = Finite r \<and> (r < 0 \<or> 100 < r)"
  then have "\<not> (fp_ge (fval x) 0 \<and> fp_le (fval x) 100)"
    by auto
  with a show "post_grades st body = (Inl RequestValidationError, st)"
    by (simp add: post_grades_def validate_Grade_out_of_range)
next
  assume a: "map_of body ''student_id'' = Some (Str sid) \<and> map_of body ''subject'' = Some (Str sub) \<and>
    map_of body ''score'' = Some (Float x) \<and> (fval x = Finite 0 \<or> fval x = Finite 100) \<and>
    opt_date body ''date'' = Some d"
  then have "fp_ge (fval x) 0 \<and> fp_le (fval x) 100"
    by auto
  with a have "validate_Grade body =
      Inr \<lparr>grade_student_id = sid, subject = sub, score = x, grade_date = d\<rparr>"
    by (simp add: validate_Grade_def req_str_def req_float_def)
  then show "post_grades st body =
        add_grade st \<lparr>grade_student_id = sid, subject = sub, score = x, grade_date = d\<rparr>"
    by (simp add: post_grades_def)
next
  assume "db st = Some s"
  then show "add_grade st g =
        (Inr [(''_id'', new_oid (next_id s))],
         set_db st (s\<lparr>colls := (colls s)(''grade'' := colls s ''grade'' @
                        [(''_id'', Oid (new_oid (next_id s))) # dump_Grade g]),
                      next_id := Suc (next_id s)\<rparr>))"
    by (simp add: add_grade_def create_document_store)
qed

theorem post_grades_score_range_witness:
  "post_grades sample_state (body_grade (Finite 101)) = (Inl RequestValidationError, sample_state) \<and>
   post_grades sample_state (body_grade (Finite (- 1))) = (Inl RequestValidationError, sample_state) \<and>
   post_grades sample_state (body_grade NaN) = (Inl RequestValidationError, sample_state) \<and>
   fst (post_grades sample_state (body_grade (Finite 0))) = Inr [(''_id'', ''000000000000000000000005'')] \<and>
   fst (post_grades sample_state (body_grade (Finite 100))) = Inr [(''_id'', ''000000000000000000000005'')]"
proof -
  have a: "db sample_state = Some sample_store"
    by (simp add: sample_state_def)
  have n: "new_oid (next_id sample_store) = ''000000000000000000000005''"
    unfolding sample_store_def by code_simp
  have 1: "post_grades sample_state (body_grade (Finite 101)) = (Inl RequestValidationError, sample_state)"
    using post_grades_score_range [where body = "body_grade (Finite 101)" and st = sample_state
        and x = "PyFloat (Finite 101) ''?''" and r = 101]
    by (simp add: body_grade_def)
  have 2: "post_grades sample_state (body_grade (Finite (- 1))) = (Inl RequestValidationError, sample_state)"
    using post_grades_score_range [where body = "body_grade (Finite (- 1))" and st = sample_state
        and x = "PyFloat (Finite (- 1)) ''?''" and r = "- 1"]
    by (simp add: body_grade_def)
  have 3: "post_grades sample_state (body_grade NaN) = (Inl RequestValidationError, sample_state)"
    using post_grades_score_range [where body = "body_grade NaN" and st = sample_state
        and x = "PyFloat NaN ''?''"]
    by (simp add: body_grade_def)
  have 4: "fst (post_grades sample_state (body_grade (Finite 0))) = Inr [(''_id'', ''000000000000000000000005'')]"
    using post_grades_score_range [where body = "body_grade (Finite 0)" and st = sample_state
        and x = "PyFloat (Finite 0) ''?''" and sid = "''000000000000000000000000''"
        and sub = "''IPA''" and d = None and s = sample_store
        and g = "\<lparr>grade_student_id = ''000000000000000000000000'', subject = ''IPA'',
                  score = PyFloat (Finite 0) ''?'', grade_date = None\<rparr>"] a n
    by (simp add: body_grade_def opt_date_def)
  have 5: "fst (post_grades sample_state (body_grade (Finite 100))) = Inr [(''_id'', ''000000000000000000000005'')]"
    using post_grades_score_range [where body = "body_grade (Finite 100)" and st = sample_state
        and x = "PyFloat (Finite 100) ''?''" and sid = "''000000000000000000000000''"
        and sub = "''IPA''" and d = None and s = sample_store
        and g = "\<lparr>grade_student_id = ''000000000000000000000000'', subject = ''IPA'',
                  score = PyFloat (Finite 100) ''?'', grade_date = None\<rparr>"] a n
    by (simp add: body_grade_def opt_date_def)
  from 1 2 3 4 5 show ?thesis by simp
qed

section \<open>Listing attendance\<close>





text \<open>The comparison of dates is a total order.\<close>

lemma date_le_refl: "date_le a a"
  by (simp add: date_le_def)

lemma date_le_trans: "date_le a b \<Longrightarrow> date_le b c \<Longrightarrow> date_le a c"
  by (auto simp: date_le_def)

lemma date_le_antisym: "date_le a b \<Longrightarrow> date_le b a \<Longrightarrow> a = b"
  by (cases a; cases b) (auto simp: date_le_def)

lemma date_le_total: "date_le a b \<or> date_le b a"
  by (auto simp: date_le_def)


lemma selected_after_end:
  "map_of d ''date'' = Some (Date dt) \<Longrightarrow> \<not> date_le dt b \<Longrightarrow> \<not> selected sid start_date (Some b) d"
  by (simp add: selected_def)



section \<open>Marking attendance\<close>

lemma matches_key:
  "matches (key_filter sid dt) d =
     (map_of d ''student_id'' = Some (Str sid) \<and> map_of d ''date'' = Some (Date dt))"
  by (cases "map_of d ''student_id''"; cases "map_of d ''date''")
     (auto simp: matches_def key_filter_def)

lemma map_of_apply_set_dump:
  "map_of (apply_set (dump_Attendance p) d) =
     (map_of d)(''student_id'' \<mapsto> Str (student_id p), ''date'' \<mapsto> Date (date p),
                ''status'' \<mapsto> Str (status p))"
  by (simp add: apply_set_def dump_Attendance_def update_conv')

lemma matches_key_apply_set:
  "matches (key_filter (student_id p) (date p)) (apply_set (dump_Attendance p) d)"
  by (simp add: matches_key map_of_apply_set_dump)

lemma update_first_none:
  "\<forall>x\<in>set ds. \<not> matches f x \<Longrightarrow> update_first f sets ds = (0, ds)"
  by (induction ds) auto

lemma update_first_split:
  "matches f d \<Longrightarrow> \<forall>x\<in>set xs. \<not> matches f x \<Longrightarrow>
     update_first f sets (xs @ d # ys) = (1, xs @ apply_set sets d # ys)"
  by (induction xs) auto

lemma find_split:
  "P d \<Longrightarrow> \<forall>x\<in>set xs. \<not> P x \<Longrightarrow> List.find P (xs @ d # ys) = Some d"
  by (induction xs) auto

lemma upsert_doc:
  "apply_set [(''created_at'', Null)]
     (apply_set (dump_Attendance p)
        ((''_id'', Oid (new_oid n)) # eq_fields (key_filter (student_id p) (date p)))) =
   inserted_doc n p"
  by (simp add: apply_set_def dump_Attendance_def eq_fields_def key_filter_def inserted_doc_def)

lemma matches_key_inserted:
  "matches (key_filter (student_id p) (date p)) (inserted_doc n p)"
  by (simp add: matches_key inserted_doc_def)

lemma mark_attendance_update:
  assumes "db st = Some s"
    and "colls s ''attendance'' = xs @ d # ys"
    and "matches (key_filter (student_id p) (date p)) d"
    and "\<forall>x\<in>set xs. \<not> matches (key_filter (student_id p) (date p)) x"
  shows "mark_attendance st p =
     (Inr (Some (serialize (apply_set (dump_Attendance p) d))),
      set_db st (s\<lparr>colls := (colls s)(''attendance'' :=
                     xs @ apply_set (dump_Attendance p) d # ys)\<rparr>))"
proof -
  let ?k = "key_filter (student_id p) (date p)"
  have u: "update_first ?k (dump_Attendance p) (colls s ''attendance'') =
           (1, xs @ apply_set (dump_Attendance p) d # ys)"
    using assms(2-4) by (simp add: update_first_split)
  have f: "List.find (matches ?k) (xs @ apply_set (dump_Attendance p) d # ys) =
           Some (apply_set (dump_Attendance p) d)"
    using assms(4) by (intro find_split matches_key_apply_set)
  show ?thesis
    using assms(1) u f
    by (simp add: mark_attendance_def update_one_def find_one_def key_filter_def Let_def)
qed

lemma mark_attendance_insert:
  assumes "db st = Some s"
    and "\<forall>x\<in>set (colls s ''attendance''). \<not> matches (key_filter (student_id p) (date p)) x"
  shows "mark_attendance st p =
     (Inr (Some (serialize (inserted_doc (next_id s) p))),
      set_db st (s\<lparr>colls := (colls s)(''attendance'' :=
                     colls s ''attendance'' @ [inserted_doc (next_id s) p]),
                   next_id := Suc (next_id s)\<rparr>))"
proof -
  let ?k = "key_filter (student_id p) (date p)"
  have u: "update_first ?k (dump_Attendance p) (colls s ''attendance'') =
           (0, colls s ''attendance'')"
    using assms(2) by (rule update_first_none)
  have f: "List.find (matches ?k) (colls s ''attendance'' @ [inserted_doc (next_id s) p]) =
           Some (inserted_doc (next_id s) p)"
    using assms(2) by (intro find_split matches_key_inserted)
  have d: "apply_set [(''created_at'', Null)]
     (apply_set (dump_Attendance p) ((''_id'', Oid (new_oid (next_id s))) # eq_fields ?k)) =
     inserted_doc (next_id s) p"
    by (rule upsert_doc)
  show ?thesis
    using assms(1) u f d
    by (simp add: mark_attendance_def update_one_def find_one_def key_filter_def Let_def)
qed


lemma filter_split_first:
  "P d \<Longrightarrow> \<forall>x\<in>set xs. \<not> P x \<Longrightarrow> filter P (xs @ d # ys) = d # filter P ys"
  by (induction xs) auto

lemma filter_none: "\<forall>x\<in>set xs. \<not> P x \<Longrightarrow> filter P xs = []"
  by (induction xs) auto

lemma mark_attendance_step:
  assumes "db st = Some s"
  shows "\<exists>s' d. mark_attendance st p = (Inr (Some (serialize d)), set_db st s') \<and>
           map_of d ''status'' = Some (Str (status p)) \<and>
           (\<exists>ds. find_docs s' ''attendance'' (key_filter (student_id p) (date p)) = d # ds \<and>
                 Suc (length ds) =
                   max 1 (length (find_docs s ''attendance''
                                    (key_filter (student_id p) (date p)))))"
proof (cases "\<exists>x\<in>set (colls s ''attendance''). matches (key_filter (student_id p) (date p)) x")
  case True
  let ?K = "matches (key_filter (student_id p) (date p))"
  from split_list_first_prop [OF True]
  obtain xs d ys where c: "colls s ''attendance'' = xs @ d # ys" and k: "?K d"
    and n: "\<forall>x\<in>set xs. \<not> ?K x"
    by blast
  let ?d = "apply_set (dump_Attendance p) d"
  let ?s = "s\<lparr>colls := (colls s)(''attendance'' := xs @ ?d # ys)\<rparr>"
  have m: "mark_attendance st p = (Inr (Some (serialize ?d)), set_db st ?s)"
    using assms c k n by (rule mark_attendance_update)
  have st: "map_of ?d ''status'' = Some (Str (status p))"
    by (simp add: map_of_apply_set_dump)
  have f0: "find_docs s ''attendance'' (key_filter (student_id p) (date p)) = d # filter ?K ys"
    using c k n by (simp add: find_docs_def filter_split_first)
  have f1: "find_docs ?s ''attendance'' (key_filter (student_id p) (date p)) = ?d # filter ?K ys"
    using n matches_key_apply_set [of p d] by (simp add: find_docs_def filter_split_first)
  show ?thesis
    using m st f0 f1 by (intro exI [of _ ?s] exI [of _ ?d]) simp
next
  case False
  let ?K = "matches (key_filter (student_id p) (date p))"
  let ?d = "inserted_doc (next_id s) p"
  let ?s = "s\<lparr>colls := (colls s)(''attendance'' := colls s ''attendance'' @ [?d]),
               next_id := Suc (next_id s)\<rparr>"
  from False have n: "\<forall>x\<in>set (colls s ''attendance''). \<not> ?K x"
    by blast
  have m: "mark_attendance st p = (Inr (Some (serialize ?d)), set_db st ?s)"
    using assms n by (rule mark_attendance_insert)
  have st: "map_of ?d ''status'' = Some (Str (status p))"
    by (simp add: inserted_doc_def)
  have f0: "find_docs s ''attendance'' (key_filter (student_id p) (date p)) = []"
    using n by (simp add: find_docs_def filter_none)
  have f1: "find_docs ?s ''attendance'' (key_filter (student_id p) (date p)) = [?d]"
    using n matches_key_inserted [of p "next_id s"] by (simp add: find_docs_def filter_none)
  show ?thesis
    using m st f0 f1 by (intro exI [of _ ?s] exI [of _ ?d]) simp
qed

subsection \<open>One record per student and day\<close>

text \<open>
  The handlers keep the attendance keys unique: the store without records has unique
  keys, and marking and deleting preserve them; no other handler writes to the
  attendance collection.
\<close>

lemma keys_unique_empty: "keys_unique \<lparr>colls = (\<lambda>c. []), next_id = n\<rparr>"
  by (simp add: keys_unique_def find_docs_def)

lemma other_key_no_match:
  assumes "matches (key_filter sid dt) d" and "(sid', dt') \<noteq> (sid, dt)"
  shows "\<not> matches (key_filter sid' dt') d"
  using assms by (auto simp: matches_key)

lemma mark_attendance_other_key:
  assumes "db st = Some s" and "(sid, dt) \<noteq> (student_id p, date p)"
  shows "\<exists>s'. snd (mark_attendance st p) = set_db st s' \<and>
           find_docs s' ''attendance'' (key_filter sid dt) =
           find_docs s ''attendance'' (key_filter sid dt)"
proof (cases "\<exists>x\<in>set (colls s ''attendance''). matches (key_filter (student_id p) (date p)) x")
  case True
  let ?K = "matches (key_filter (student_id p) (date p))"
  from split_list_first_prop [OF True]
  obtain xs d ys where c: "colls s ''attendance'' = xs @ d # ys" and k: "?K d"
    and n: "\<forall>x\<in>set xs. \<not> ?K x"
    by blast
  let ?d = "apply_set (dump_Attendance p) d"
  let ?s = "s\<lparr>colls := (colls s)(''attendance'' := xs @ ?d # ys)\<rparr>"
  have m: "snd (mark_attendance st p) = set_db st ?s"
    using mark_attendance_update [OF assms(1) c k n] by simp
  have "\<not> matches (key_filter sid dt) d"
    using k assms(2) by (rule other_key_no_match)
  moreover have "\<not> matches (key_filter sid dt) ?d"
    using matches_key_apply_set assms(2) by (rule other_key_no_match)
  ultimately have "find_docs ?s ''attendance'' (key_filter sid dt) =
                   find_docs s ''attendance'' (key_filter sid dt)"
    using c by (simp add: find_docs_def)
  with m show ?thesis by blast
next
  case False
  let ?d = "inserted_doc (next_id s) p"
  let ?s = "s\<lparr>colls := (colls s)(''attendance'' := colls s ''attendance'' @ [?d]),
               next_id := Suc (next_id s)\<rparr>"
  from False have n: "\<forall>x\<in>set (colls s ''attendance'').
      \<not> matches (key_filter (student_id p) (date p)) x"
    by blast
  have m: "snd (mark_attendance st p) = set_db st ?s"
    using mark_attendance_insert [OF assms(1) n] by simp
  have "\<not> matches (key_filter sid dt) ?d"
    using matches_key_inserted assms(2) by (rule other_key_no_match)
  then have "find_docs ?s ''attendance'' (key_filter sid dt) =
             find_docs s ''attendance'' (key_filter sid dt)"
    by (simp add: find_docs_def)
  with m show ?thesis by blast
qed

lemma mark_attendance_keeps_keys_unique:
  assumes "db st = Some s" and "keys_unique s"
  shows "\<exists>s'. snd (mark_attendance st p) = set_db st s' \<and> keys_unique s'"
proof -
  from mark_attendance_step [OF assms(1), of p]
  obtain s' d ds where m: "mark_attendance st p = (Inr (Some (serialize d)), set_db st s')"
    and f: "find_docs s' ''attendance'' (key_filter (student_id p) (date p)) = d # ds"
    and l: "Suc (length ds) =
              max 1 (length (find_docs s ''attendance'' (key_filter (student_id p) (date p))))"
    by blast
  have own: "length (find_docs s' ''attendance'' (key_filter (student_id p) (date p))) \<le> 1"
    using f l assms(2) by (simp add: keys_unique_def)
  have other: "length (find_docs s' ''attendance'' (key_filter sid dt)) \<le> 1"
    if "(sid, dt) \<noteq> (student_id p, date p)" for sid dt
  proof -
    from mark_attendance_other_key [OF assms(1) that]
    obtain s'' where "snd (mark_attendance st p) = set_db st s''"
      and e: "find_docs s'' ''attendance'' (key_filter sid dt) =
              find_docs s ''attendance'' (key_filter sid dt)"
      by blast
    with m have "s'' = s'"
      by (simp add: set_db_def) (metis option.inject state.select_convs(1) state.surjective state.update_convs(1))
    with e assms(2) show ?thesis
      by (simp add: keys_unique_def)
  qed
  have "keys_unique s'"
    unfolding keys_unique_def
  proof (intro allI)
    fix sid dt
    show "length (find_docs s' ''attendance'' (key_filter sid dt)) \<le> 1"
      using own other [of sid dt] by (cases "(sid, dt) = (student_id p, date p)") auto
  qed
  with m show ?thesis by auto
qed

lemma remove_first_filter_length:
  "length (filter P (snd (remove_first f ds))) \<le> length (filter P ds)"
  by (induction ds) (auto split: prod.splits)

lemma delete_attendance_keeps_keys_unique:
  assumes "db st = Some s" and "keys_unique s"
  shows "\<exists>s'. db (snd (delete_attendance st i)) = Some s' \<and> keys_unique s'"
proof (cases "ObjectId i")
  case (Inl e)
  with assms show ?thesis by (auto simp: delete_attendance_def)
next
  case (Inr oid)
  let ?r = "remove_first [(''_id'', Eq (Oid oid))] (colls s ''attendance'')"
  let ?s = "s\<lparr>colls := (colls s)(''attendance'' := snd ?r)\<rparr>"
  have "db (snd (delete_attendance st i)) = Some ?s"
    using assms(1) Inr
    by (simp add: delete_attendance_def delete_one_def set_db_def split: prod.splits)
  moreover have "keys_unique ?s"
    using assms(2) remove_first_filter_length [of _ "[(''_id'', Eq (Oid oid))]" "colls s ''attendance''"]
    by (auto simp: keys_unique_def find_docs_def intro: order_trans)
  ultimately show ?thesis by blast
qed


lemma delete_student_attendance:
  assumes "db st = Some s"
  shows "\<exists>s'. db (snd (delete_student st i)) = Some s' \<and>
           colls s' ''attendance'' =
             filter (\<lambda>d. \<not> matches [(''student_id'', Eq (Str i))] d) (colls s ''attendance'')"
  using assms
  by (cases "ObjectId i")
     (auto simp: delete_student_def delete_many_def delete_one_def set_db_def split: prod.splits)

lemma delete_student_keeps_keys_unique:
  assumes "db st = Some s" and "keys_unique s"
  shows "\<exists>s'. db (snd (delete_student st i)) = Some s' \<and> keys_unique s'"
proof -
  from delete_student_attendance [OF assms(1), of i]
  obtain s' where d: "db (snd (delete_student st i)) = Some s'"
    and c: "colls s' ''attendance'' =
             filter (\<lambda>d. \<not> matches [(''student_id'', Eq (Str i))] d) (colls s ''attendance'')"
    by blast
  have le: "length (filter P (filter Q xs)) \<le> length (filter P xs)"
    for P Q and xs :: "doc list"
    by (induction xs) auto
  have "keys_unique s'"
    unfolding keys_unique_def find_docs_def c
  proof (intro allI)
    fix sid dt
    have "length (filter (matches (key_filter sid dt))
            (filter (\<lambda>d. \<not> matches [(''student_id'', Eq (Str i))] d) (colls s ''attendance'')))
          \<le> length (filter (matches (key_filter sid dt)) (colls s ''attendance''))"
      by (rule le)
    also have "\<dots> \<le> 1"
      using assms(2) by (simp add: keys_unique_def find_docs_def)
    finally show "length (filter (matches (key_filter sid dt))
            (filter (\<lambda>d. \<not> matches [(''student_id'', Eq (Str i))] d) (colls s ''attendance'')))
          \<le> 1" .
  qed
  with d show ?thesis by blast
qed

text \<open>
  So every state that requests lead to from a fresh start has unique attendance keys.
\<close>

lemma keys_unique_cong:
  "colls s' ''attendance'' = colls s ''attendance'' \<Longrightarrow> keys_unique s \<Longrightarrow> keys_unique s'"
  by (simp add: keys_unique_def find_docs_def)

lemma keys_ok_same_attendance:
  assumes "keys_ok st"
    and "\<And>s. db st = Some s \<Longrightarrow>
           \<exists>s'. db st' = Some s' \<and> colls s' ''attendance'' = colls s ''attendance''"
    and "db st = None \<Longrightarrow> db st' = None"
  shows "keys_ok st'"
proof (cases "db st")
  case None
  with assms(3) show ?thesis by (simp add: keys_ok_def)
next
  case (Some s)
  with assms(2) obtain s' where "db st' = Some s'"
    and "colls s' ''attendance'' = colls s ''attendance''"
    by blast
  with assms(1) Some show ?thesis
    by (auto simp: keys_ok_def intro: keys_unique_cong)
qed

lemma create_document_frame:
  "c \<noteq> ''attendance'' \<Longrightarrow> keys_ok st \<Longrightarrow> keys_ok (snd (create_document st c data))"
  by (rule keys_ok_same_attendance [where st = st])
     (auto simp: create_document_def insert_one_def set_db_def Let_def split: option.splits)

lemma update_one_frame:
  "c \<noteq> ''attendance'' \<Longrightarrow>
     colls (snd (update_one s c f sets ins ups)) ''attendance'' = colls s ''attendance''"
  by (simp add: update_one_def split: prod.splits)

lemma delete_one_frame:
  "c \<noteq> ''attendance'' \<Longrightarrow>
     colls (snd (delete_one s c f)) ''attendance'' = colls s ''attendance''"
  by (simp add: delete_one_def split: prod.splits)

lemma snd_create:
  "snd (create_student st p) = snd (create_document st ''student'' (dump_Student p))"
  "snd (create_agenda st a) = snd (create_document st ''agenda'' (dump_Agenda a))"
  "snd (add_grade st g) = snd (create_document st ''grade'' (dump_Grade g))"
  by (simp_all add: create_student_def create_agenda_def add_grade_def
      split: prod.splits sum.splits)

lemma keys_ok_post_students: "keys_ok st \<Longrightarrow> keys_ok (snd (post_students st body))"
  by (cases "validate_Student body")
     (simp_all add: post_students_def snd_create create_document_frame)

lemma keys_ok_post_agendas: "keys_ok st \<Longrightarrow> keys_ok (snd (post_agendas st body))"
  by (cases "validate_Agenda body")
     (simp_all add: post_agendas_def snd_create create_document_frame)

lemma keys_ok_post_grades: "keys_ok st \<Longrightarrow> keys_ok (snd (post_grades st body))"
  by (cases "validate_Grade body")
     (simp_all add: post_grades_def snd_create create_document_frame)

lemma keys_ok_update_student: "keys_ok st \<Longrightarrow> keys_ok (snd (update_student st i p))"
proof (rule keys_ok_same_attendance [where st = st])
  fix s
  assume "db st = Some s"
  then show "\<exists>s'. db (snd (update_student st i p)) = Some s' \<and>
               colls s' ''attendance'' = colls s ''attendance''"
    by (cases "ObjectId i")
       (auto simp: update_student_def set_db_def update_one_def split: prod.splits)
next
  assume "db st = None"
  then show "db (snd (update_student st i p)) = None"
    by (simp add: update_student_def)
qed

lemma keys_ok_update_agenda: "keys_ok st \<Longrightarrow> keys_ok (snd (update_agenda st i p))"
proof (rule keys_ok_same_attendance [where st = st])
  fix s
  assume "db st = Some s"
  then show "\<exists>s'. db (snd (update_agenda st i p)) = Some s' \<and>
               colls s' ''attendance'' = colls s ''attendance''"
    by (cases "ObjectId i")
       (auto simp: update_agenda_def set_db_def update_one_def split: prod.splits)
next
  assume "db st = None"
  then show "db (snd (update_agenda st i p)) = None"
    by (simp add: update_agenda_def)
qed

lemma keys_ok_put_students: "keys_ok st \<Longrightarrow> keys_ok (snd (put_students st i body))"
  by (cases "validate_Student body") (simp_all add: put_students_def keys_ok_update_student)

lemma keys_ok_put_agendas: "keys_ok st \<Longrightarrow> keys_ok (snd (put_agendas st i body))"
  by (cases "validate_Agenda body") (simp_all add: put_agendas_def keys_ok_update_agenda)

lemma keys_ok_delete_agenda: "keys_ok st \<Longrightarrow> keys_ok (snd (delete_agenda st i))"
proof (rule keys_ok_same_attendance [where st = st])
  fix s
  assume "db st = Some s"
  then show "\<exists>s'. db (snd (delete_agenda st i)) = Some s' \<and>
               colls s' ''attendance'' = colls s ''attendance''"
    by (cases "ObjectId i")
       (auto simp: delete_agenda_def set_db_def delete_one_def split: prod.splits)
next
  assume "db st = None"
  then show "db (snd (delete_agenda st i)) = None"
    by (simp add: delete_agenda_def)
qed

lemma keys_ok_delete_grade: "keys_ok st \<Longrightarrow> keys_ok (snd (delete_grade st i))"
proof (rule keys_ok_same_attendance [where st = st])
  fix s
  assume "db st = Some s"
  then show "\<exists>s'. db (snd (delete_grade st i)) = Some s' \<and>
               colls s' ''attendance'' = colls s ''attendance''"
    by (cases "ObjectId i")
       (auto simp: delete_grade_def set_db_def delete_one_def split: prod.splits)
next
  assume "db st = None"
  then show "db (snd (delete_grade st i)) = None"
    by (simp add: delete_grade_def)
qed

lemma keys_ok_delete_attendance: "keys_ok st \<Longrightarrow> keys_ok (snd (delete_attendance st i))"
proof (cases "db st")
  case None
  then show ?thesis by (simp add: keys_ok_def delete_attendance_def)
next
  case (Some s)
  assume "keys_ok st"
  with Some have "keys_unique s" by (simp add: keys_ok_def)
  from delete_attendance_keeps_keys_unique [OF Some this, of i]
  show ?thesis by (auto simp: keys_ok_def)
qed

lemma keys_ok_delete_student: "keys_ok st \<Longrightarrow> keys_ok (snd (delete_student st i))"
proof (cases "db st")
  case None
  then show ?thesis by (simp add: keys_ok_def delete_student_def)
next
  case (Some s)
  assume "keys_ok st"
  with Some have "keys_unique s" by (simp add: keys_ok_def)
  from delete_student_keeps_keys_unique [OF Some this, of i]
  show ?thesis by (auto simp: keys_ok_def)
qed

lemma keys_ok_mark_attendance: "keys_ok st \<Longrightarrow> keys_ok (snd (mark_attendance st p))"
proof (cases "db st")
  case None
  then show ?thesis by (simp add: keys_ok_def mark_attendance_def)
next
  case (Some s)
  assume "keys_ok st"
  with Some have "keys_unique s" by (simp add: keys_ok_def)
  from mark_attendance_keeps_keys_unique [OF Some this, of p]
  show ?thesis by (auto simp: keys_ok_def set_db_def)
qed

lemma keys_ok_post_attendance: "keys_ok st \<Longrightarrow> keys_ok (snd (post_attendance st body))"
  by (cases "validate_Attendance body")
     (simp_all add: post_attendance_def keys_ok_mark_attendance)

lemma keys_ok_login: "keys_ok st \<Longrightarrow> keys_ok (snd (login st req))"
  by (simp add: keys_ok_def login_def Let_def)

lemma keys_ok_handle: "keys_ok st \<Longrightarrow> keys_ok (handle st r)"
  by (cases r)
     (simp_all add: keys_ok_post_students keys_ok_put_students keys_ok_delete_student
        keys_ok_post_attendance keys_ok_delete_attendance keys_ok_post_agendas
        keys_ok_put_agendas keys_ok_delete_agenda keys_ok_post_grades keys_ok_delete_grade
        keys_ok_login)

lemma fresh_keys_ok: "fresh st \<Longrightarrow> keys_ok st"
  by (auto simp: fresh_def keys_ok_def keys_unique_def find_docs_def split: option.splits)

lemma reachable_keys_ok: "reachable st \<Longrightarrow> keys_ok st"
  by (induction rule: reachable.induct) (simp_all add: fresh_keys_ok keys_ok_handle)

lemma reachable_keys_unique: "reachable st \<Longrightarrow> db st = Some s \<Longrightarrow> keys_unique s"
  using reachable_keys_ok [of st] by (simp add: keys_ok_def)

subsection \<open>Marking twice\<close>




subsection \<open>The field created_at\<close>





section \<open>CSV export\<close>





lemma csv_row_cells:
  assumes "map_of r ''_id'' = Some (Oid h)" and "map_of r ''student_id'' = Some (Str sid)"
    and "map_of r ''date'' = Some (Date dt)" and "map_of r ''status'' = Some (Str stat)"
  shows "map cell_text (csv_row r) = [h, sid, isoformat dt, stat]"
  using assms by (simp add: csv_row_def get_def cell_text_def)



end
